theory Spec2Isabelle
  imports Main "HOL-Library.Sublist"
begin

section \<open>Values and strings of the validator\<close>

text \<open>
  The validator (\<^verbatim>\<open>scripts/arxml_validator.py\<close>) reads its rules from a JSON file, so a
  rule is a dictionary from field names to JSON values, and a result row is a Python list
  of such values. Strings are character lists. JSON arrays, objects and floating-point
  numbers as field values are outside this model.
\<close>

datatype jval = JNull | JBool bool | JInt int | JStr string

datatype py_error = SystemExit string | TypeError | AttributeError | ReError

type_synonym rule = "string \<rightharpoonup> jval"

type_synonym row = "jval list"

text \<open>The apostrophe, which a string literal cannot hold.\<close>

definition apos :: char where
  "apos = CHR 0x27"

text \<open>\<^verbatim>\<open>sub in s\<close> on two strings: \<open>sub\<close> occurs contiguously in \<open>s\<close>.\<close>

fun py_in :: "string \<Rightarrow> string \<Rightarrow> bool" where
  "py_in sub [] = (sub = [])"
| "py_in sub (c # cs) = (prefix sub (c # cs) \<or> py_in sub cs)"

text \<open>
  \<^verbatim>\<open>s.replace(old, new)\<close>: the occurrences of \<open>old\<close> are found from the left and do not
  overlap; the text put in is not scanned again. With an empty \<open>old\<close>, \<open>new\<close> is put
  before every character and at the end.
\<close>

function replace :: "string \<Rightarrow> string \<Rightarrow> string \<Rightarrow> string" where
  "replace [] old new = (if old = [] then new else [])"
| "replace (c # cs) old new =
     (if old = [] then new @ c # replace cs old new
      else if prefix old (c # cs) then new @ replace (drop (length old) (c # cs)) old new
      else c # replace cs old new)"
  by pat_completeness auto
termination
  by (relation "measure (\<lambda>(s, old, new). length s)") auto

text \<open>
  \<^verbatim>\<open>str.isspace\<close> on the characters below 256, and \<^verbatim>\<open>s.strip()\<close>, which drops them at
  both ends.
\<close>

definition is_space :: "char \<Rightarrow> bool" where
  "is_space c =
     (let n = (of_char c :: nat)
      in (9 \<le> n \<and> n \<le> 13) \<or> (28 \<le> n \<and> n \<le> 32) \<or> n = 133 \<or> n = 160)"

definition strip :: "string \<Rightarrow> string" where
  "strip s = rev (dropWhile is_space (rev (dropWhile is_space s)))"

text \<open>\<^verbatim>\<open>s.split(sep)\<close> for a separator of one character: it never returns an empty list.\<close>

fun split_on :: "char \<Rightarrow> string \<Rightarrow> string list" where
  "split_on sep [] = [[]]"
| "split_on sep (c # cs) =
     (if c = sep then [] # split_on sep cs
      else (case split_on sep cs of
              [] \<Rightarrow> [[c]]
            | w # ws \<Rightarrow> (c # w) # ws))"

text \<open>\<^verbatim>\<open>s.lower()\<close> on the ASCII letters, and \<^verbatim>\<open>s.endswith(suf)\<close>.\<close>

definition lower_char :: "char \<Rightarrow> char" where
  "lower_char c =
     (let n = (of_char c :: nat)
      in if 65 \<le> n \<and> n \<le> 90 then char_of (n + 32) else c)"

definition lower :: "string \<Rightarrow> string" where
  "lower s = map lower_char s"

definition endswith :: "string \<Rightarrow> string \<Rightarrow> bool" where
  "endswith s suf = suffix suf s"

section \<open>Condition evaluator\<close>

text \<open>
  \<^verbatim>\<open>actual == expected\<close>, where \<open>actual\<close> is a string or \<^verbatim>\<open>None\<close> and \<open>expected\<close> is
  any value of the rule file.
\<close>

fun py_eq :: "string option \<Rightarrow> jval \<Rightarrow> bool" where
  "py_eq (Some a) (JStr e) = (a = e)"
| "py_eq None JNull = True"
| "py_eq _ _ = False"

text \<open>
  \<^verbatim>\<open>evaluate_condition(actual, expected, condition)\<close>. The regular-expression library is a
  parameter: \<open>re_match p s\<close> is \<open>Some b\<close> when \<^verbatim>\<open>re.match(p, s)\<close> returns (\<open>b\<close>: a match
  was found) and \<open>None\<close> when it raises \<^verbatim>\<open>re.error\<close> on a malformed pattern. An
  \<open>expected\<close> that is not a string has no \<^verbatim>\<open>split\<close> and is no pattern.
\<close>

definition evaluate_condition ::
  "(string \<Rightarrow> string \<Rightarrow> bool option) \<Rightarrow> string option \<Rightarrow> jval \<Rightarrow> jval \<Rightarrow> py_error + bool"
where
  "evaluate_condition re_match actual expected condition =
     (if condition = JStr ''EQUALS'' then Inr (py_eq actual expected)
      else if condition = JStr ''NOT_EQUALS'' then Inr (\<not> py_eq actual expected)
      else if condition = JStr ''EXISTS'' then Inr (actual \<noteq> None \<and> actual \<noteq> Some [])
      else if condition = JStr ''IN'' then
        (case expected of
           JStr e \<Rightarrow>
             Inr (case actual of
                    None \<Rightarrow> False
                  | Some a \<Rightarrow> a \<in> set (map strip (split_on CHR '','' e)))
         | _ \<Rightarrow> Inl AttributeError)
      else if condition = JStr ''REGEX'' then
        (case expected of
           JStr p \<Rightarrow>
             (case re_match p (case actual of None \<Rightarrow> [] | Some a \<Rightarrow> a) of
                None \<Rightarrow> Inl ReError
              | Some b \<Rightarrow> Inr b)
         | _ \<Rightarrow> Inl TypeError)
      else Inr False)"

section \<open>Path normalizer\<close>

definition marker :: string where
  "marker = ''local-name()''"

definition descendant_step :: string where
  "descendant_step = ''//*[local-name()='' @ [apos]"

definition child_step :: string where
  "child_step = [apos] @ ''][local-name()='' @ [apos]"

definition closing :: string where
  "closing = [apos] @ '']''"

text \<open>
  \<^verbatim>\<open>normalize_xpath(xpath)\<close> on a string. The second \<^verbatim>\<open>replace\<close> runs over the result of
  the first, so it also rewrites the two separators that the first one has just written.
\<close>

definition normalize_xpath :: "string \<Rightarrow> string" where
  "normalize_xpath xpath =
     (if py_in marker xpath then xpath
      else replace (replace xpath ''//'' descendant_step) ''/'' child_step @ closing)"

section \<open>Validation engine\<close>

text \<open>
  The collaborators of the engine are parameters: \<^verbatim>\<open>os.path.join\<close> and
  \<^verbatim>\<open>os.path.relpath\<close> (relative to the scan root), \<^verbatim>\<open>etree.parse\<close> followed by
  \<^verbatim>\<open>getroot\<close> (\<open>Inl msg\<close> when either raises, \<open>msg\<close> being \<^verbatim>\<open>str(e)\<close>),
  \<^verbatim>\<open>root.xpath\<close> (\<open>None\<close> when it raises, otherwise the list of matched elements) and
  \<^verbatim>\<open>re.match\<close>. A matched element is reduced to its \<^verbatim>\<open>text\<close>, a string or
  \<^verbatim>\<open>None\<close>; queries that return a number, a boolean or strings are outside this model.
\<close>

datatype elem = Elem (elem_text: "string option")

record 'd lib =
  os_path_join :: "string \<Rightarrow> string \<Rightarrow> string"
  os_path_relpath :: "string \<Rightarrow> string"
  etree_parse :: "string \<Rightarrow> string + 'd"
  root_xpath :: "'d \<Rightarrow> string \<Rightarrow> elem list option"
  re_match :: "string \<Rightarrow> string \<Rightarrow> bool option"

text \<open>\<^verbatim>\<open>rule.get(key, default)\<close> and the truth value Python gives a JSON value.\<close>

definition dict_get :: "rule \<Rightarrow> string \<Rightarrow> jval \<Rightarrow> jval" where
  "dict_get r k d = (case r k of None \<Rightarrow> d | Some v \<Rightarrow> v)"

fun truthy :: "jval \<Rightarrow> bool" where
  "truthy JNull = False"
| "truthy (JBool b) = b"
| "truthy (JInt n) = (n \<noteq> 0)"
| "truthy (JStr s) = (s \<noteq> [])"

text \<open>The column names handed to the report, in order.\<close>

definition columns :: "string list" where
  "columns = [''ARXML Path'', ''ARXML File'', ''Rule ID'', ''Description'',
              ''XPath'', ''Expected'', ''Actual'', ''Status'']"

text \<open>
  The entry of a row that lies under a column; \<open>None\<close> when the row is too short to reach
  that column (or the column does not exist).
\<close>

fun position :: "string \<Rightarrow> string list \<Rightarrow> nat option" where
  "position name [] = None"
| "position name (c # cs) =
     (if c = name then Some 0 else map_option Suc (position name cs))"

definition cell :: "string \<Rightarrow> row \<Rightarrow> jval option" where
  "cell name r =
     (case position name columns of
        None \<Rightarrow> None
      | Some i \<Rightarrow> if i < length r then Some (r ! i) else None)"

text \<open>
  The loop over the matched elements: one row for each, unless the evaluation of the
  condition raises, which nothing around it catches.
\<close>

fun eval_elems ::
  "'d lib \<Rightarrow> string \<Rightarrow> string \<Rightarrow> jval \<Rightarrow> jval \<Rightarrow> string \<Rightarrow> jval \<Rightarrow> jval \<Rightarrow> elem list
     \<Rightarrow> py_error + row list"
where
  "eval_elems L rel_path file rule_id desc xp expected condition [] = Inr []"
| "eval_elems L rel_path file rule_id desc xp expected condition (e # es) =
     (let actual = strip (case elem_text e of None \<Rightarrow> [] | Some t \<Rightarrow> t)
      in case evaluate_condition (re_match L) (Some actual) expected condition of
           Inl err \<Rightarrow> Inl err
         | Inr ok \<Rightarrow>
             (case eval_elems L rel_path file rule_id desc xp expected condition es of
                Inl err \<Rightarrow> Inl err
              | Inr rows \<Rightarrow>
                  Inr ([JStr rel_path, JStr file, rule_id, desc, JStr xp, expected,
                        JStr actual, JStr (if ok then ''PASS'' else ''FAIL'')] # rows)))"

text \<open>
  The body of \<^verbatim>\<open>for rule in rules\<close>: the rows one rule adds for one parsed document. An
  \<^verbatim>\<open>xpath\<close> field that is not a string makes the test \<^verbatim>\<open>"local-name()" in xpath\<close> raise.
\<close>

definition apply_rule :: "'d lib \<Rightarrow> 'd \<Rightarrow> string \<Rightarrow> string \<Rightarrow> rule \<Rightarrow> py_error + row list" where
  "apply_rule L root rel_path file r =
     (let rule_id = dict_get r ''rule_id'' (JStr ''UNKNOWN'');
          desc = dict_get r ''description'' (JStr [])
      in case dict_get r ''xpath'' (JStr []) of
           JStr raw \<Rightarrow>
             (let xp = normalize_xpath raw;
                  condition = dict_get r ''condition'' (JStr []);
                  expected = dict_get r ''expected'' (JStr []);
                  mandatory = dict_get r ''mandatory'' (JBool True)
              in case root_xpath L root xp of
                   None \<Rightarrow>
                     Inr [[JStr rel_path, JStr file, rule_id, desc, JStr xp, expected,
                           JStr [], JStr ''INVALID_XPATH'']]
                 | Some elements \<Rightarrow>
                     if elements = [] then
                       Inr [[JStr rel_path, JStr file, rule_id, desc, JStr xp, expected,
                             JStr [], JStr (if truthy mandatory then ''FAIL'' else ''SKIP'')]]
                     else eval_elems L rel_path file rule_id desc xp expected condition elements)
         | _ \<Rightarrow> Inl TypeError)"

fun apply_rules :: "'d lib \<Rightarrow> 'd \<Rightarrow> string \<Rightarrow> string \<Rightarrow> rule list \<Rightarrow> py_error + row list" where
  "apply_rules L root rel_path file [] = Inr []"
| "apply_rules L root rel_path file (r # rs) =
     (case apply_rule L root rel_path file r of
        Inl err \<Rightarrow> Inl err
      | Inr rows \<Rightarrow>
          (case apply_rules L root rel_path file rs of
             Inl err \<Rightarrow> Inl err
           | Inr rows' \<Rightarrow> Inr (rows @ rows')))"

text \<open>The row appended when a document cannot be parsed.\<close>

definition parse_error_row :: "string \<Rightarrow> string \<Rightarrow> string \<Rightarrow> row" where
  "parse_error_row rel_path file msg =
     [JStr rel_path, JStr file, JStr ''PARSE_ERROR'', JStr [], JStr [], JStr msg, JStr ''FAIL'']"

text \<open>One file that passed the extension filter: parse it, then run every rule.\<close>

definition process_file :: "'d lib \<Rightarrow> rule list \<Rightarrow> string \<Rightarrow> string \<Rightarrow> py_error + row list" where
  "process_file L rules root_dir file =
     (let full_path = os_path_join L root_dir file;
          rel_path = os_path_relpath L full_path
      in case etree_parse L full_path of
           Inl msg \<Rightarrow> Inr [parse_error_row rel_path file msg]
         | Inr root \<Rightarrow> apply_rules L root rel_path file rules)"

text \<open>\<^verbatim>\<open>for file in files\<close>, with the filter on the extension.\<close>

fun scan_files :: "'d lib \<Rightarrow> rule list \<Rightarrow> string \<Rightarrow> string list \<Rightarrow> py_error + row list" where
  "scan_files L rules root_dir [] = Inr []"
| "scan_files L rules root_dir (file # files) =
     (if \<not> endswith (lower file) ''.arxml'' then scan_files L rules root_dir files
      else (case process_file L rules root_dir file of
              Inl err \<Rightarrow> Inl err
            | Inr rows \<Rightarrow>
                (case scan_files L rules root_dir files of
                   Inl err \<Rightarrow> Inl err
                 | Inr rows' \<Rightarrow> Inr (rows @ rows'))))"

text \<open>\<^verbatim>\<open>for root_dir, _, files in os.walk(ARXML_DIR)\<close>: the walk is the list of its entries.\<close>

fun walk_dirs :: "'d lib \<Rightarrow> rule list \<Rightarrow> (string \<times> string list) list \<Rightarrow> py_error + row list" where
  "walk_dirs L rules [] = Inr []"
| "walk_dirs L rules ((root_dir, files) # ds) =
     (case scan_files L rules root_dir files of
        Inl err \<Rightarrow> Inl err
      | Inr rows \<Rightarrow>
          (case walk_dirs L rules ds of
             Inl err \<Rightarrow> Inl err
           | Inr rows' \<Rightarrow> Inr (rows @ rows')))"

text \<open>
  The script up to the report: \<open>Inr results\<close> is the list of rows handed to the report,
  \<open>Inl e\<close> an exception that ends the process before any report is written.
\<close>

definition main :: "'d lib \<Rightarrow> rule list \<Rightarrow> (string \<times> string list) list \<Rightarrow> py_error + row list" where
  "main L rules walk =
     (if rules = [] then Inl (SystemExit ''ERROR: No rules loaded'')
      else walk_dirs L rules walk)"

text \<open>
  A small library for worked examples. The document at \<^verbatim>\<open>./bad.arxml\<close> does not parse;
  every other path parses to a tree in which the query \<^verbatim>\<open>//*[local-name()='A']\<close> finds
  two elements and \<^verbatim>\<open>//*[local-name()='Z']\<close> none; any other query is rejected. The
  pattern \<^verbatim>\<open>(\<close> is malformed; any other pattern is taken to match.
\<close>

definition query_A :: string where
  "query_A = ''//*[local-name()='' @ [apos] @ ''A'' @ [apos] @ '']''"

definition query_Z :: string where
  "query_Z = ''//*[local-name()='' @ [apos] @ ''Z'' @ [apos] @ '']''"

definition example_lib :: "unit lib" where
  "example_lib =
     \<lparr> os_path_join = (\<lambda>d f. d @ ''/'' @ f),
       os_path_relpath = (\<lambda>p. drop 2 p),
       etree_parse = (\<lambda>p. if p = ''./bad.arxml'' then Inl ''boom'' else Inr ()),
       root_xpath = (\<lambda>_ q. if q = query_A then Some [Elem (Some '' 1.0.0 ''), Elem None]
                            else if q = query_Z then Some []
                            else None),
       re_match = (\<lambda>p s. if p = ''('' then None else Some True) \<rparr>"

text \<open>The literals the engine writes as the final entry of a row.\<close>

definition statuses :: "jval set" where
  "statuses = {JStr ''PASS'', JStr ''FAIL'', JStr ''SKIP'', JStr ''INVALID_XPATH''}"

text \<open>
  Three rules for the worked examples: an \<^verbatim>\<open>EQUALS\<close> rule on the elements \<^verbatim>\<open>A\<close>, an
  optional rule that matches nothing, and a rule whose path \<^verbatim>\<open>/A/B\<close> still has to be
  normalized. Below them, the rows of a run over a directory that holds \<^verbatim>\<open>a.arxml\<close>,
  \<^verbatim>\<open>notes.txt\<close> and \<^verbatim>\<open>bad.arxml\<close>.
\<close>

definition example_rules :: "rule list" where
  "example_rules =
     [Map.empty(''rule_id'' \<mapsto> JStr ''R1'', ''xpath'' \<mapsto> JStr query_A,
                ''condition'' \<mapsto> JStr ''EQUALS'', ''expected'' \<mapsto> JStr ''1.0.0''),
      Map.empty(''rule_id'' \<mapsto> JStr ''R2'', ''xpath'' \<mapsto> JStr query_Z,
                ''mandatory'' \<mapsto> JBool False),
      Map.empty(''rule_id'' \<mapsto> JStr ''R3'', ''xpath'' \<mapsto> JStr ''/A/B'')]"

definition example_rows :: "row list" where
  "example_rows =
     [[JStr ''a.arxml'', JStr ''a.arxml'', JStr ''R1'', JStr [], JStr query_A,
       JStr ''1.0.0'', JStr ''1.0.0'', JStr ''PASS''],
      [JStr ''a.arxml'', JStr ''a.arxml'', JStr ''R1'', JStr [], JStr query_A,
       JStr ''1.0.0'', JStr [], JStr ''FAIL''],
      [JStr ''a.arxml'', JStr ''a.arxml'', JStr ''R2'', JStr [], JStr query_Z,
       JStr [], JStr [], JStr ''SKIP''],
      [JStr ''a.arxml'', JStr ''a.arxml'', JStr ''R3'', JStr [], JStr (normalize_xpath ''/A/B''),
       JStr [], JStr [], JStr ''INVALID_XPATH''],
      [JStr ''bad.arxml'', JStr ''bad.arxml'', JStr ''PARSE_ERROR'', JStr [], JStr [],
       JStr ''boom'', JStr ''FAIL'']]"

section \<open>Properties of the string operations\<close>

lemma py_in_sublist: "py_in sub s = sublist sub s"
  by (induction s) (simp_all add: sublist_Cons_right)

lemma py_in_single: "py_in [c] s = (c \<in> set s)"
  by (induction s) auto

lemma in_set_replace:
  "c \<in> set s \<Longrightarrow> c \<in> set new \<Longrightarrow> c \<in> set (replace s old new)"
  by (induction s old new rule: replace.induct) (auto split: if_splits)

lemma sublist_replace_char:
  "c \<in> set s \<Longrightarrow> sublist new (replace s [c] new)"
proof (induction s)
  case Nil
  then show ?case by simp
next
  case (Cons a s)
  show ?case
  proof (cases "a = c")
    case True
    then show ?thesis by simp
  next
    case False
    with Cons have "sublist new (replace s [c] new)" by simp
    then show ?thesis using False by (simp add: sublist_Cons_right)
  qed
qed

lemma set_replace_char:
  "set (replace s [c] new) \<subseteq> (set s - {c}) \<union> set new"
  by (induction s) auto

section \<open>The path normalizer\<close>

lemma marker_in_child_step: "sublist marker child_step"
proof -
  have "child_step = (apos # '']['') @ marker @ (''='' @ [apos])"
    by (simp add: child_step_def marker_def)
  then show ?thesis by (metis sublist_appendI)
qed

lemma slash_in_descendant_step: "CHR ''/'' \<in> set descendant_step"
  by (simp add: descendant_step_def)

text \<open>An expression with a separator carries the marker once it has been rewritten.\<close>

lemma marker_after_rewrite:
  assumes "CHR ''/'' \<in> set x"
  shows "py_in marker (replace (replace x ''//'' descendant_step) ''/'' child_step @ closing)"
proof -
  have "CHR ''/'' \<in> set (replace x ''//'' descendant_step)"
    using assms slash_in_descendant_step by (rule in_set_replace)
  then have "sublist child_step (replace (replace x ''//'' descendant_step) ''/'' child_step)"
    by (rule sublist_replace_char)
  with marker_in_child_step
  have "sublist marker (replace (replace x ''//'' descendant_step) ''/'' child_step)"
    by (rule sublist_order.order_trans)
  then have "sublist marker (replace (replace x ''//'' descendant_step) ''/'' child_step @ closing)"
    by (auto simp: sublist_append)
  then show ?thesis by (simp add: py_in_sublist)
qed

text \<open>
  No separator survives the rewrite: the second \<^verbatim>\<open>replace\<close> removes every \<^verbatim>\<open>/\<close>, those of
  the descendant steps included, so a rewritten expression is never an absolute path.
\<close>

lemma no_separator_left:
  "\<not> py_in marker x \<Longrightarrow> CHR ''/'' \<notin> set (normalize_xpath x)"
  using set_replace_char [of "replace x ''//'' descendant_step" "CHR ''/''" child_step]
  by (auto simp: normalize_xpath_def child_step_def closing_def apos_def)

text \<open>
  C1 (the code departs from the claim). The claim: for an input such as \<^verbatim>\<open>/A/B\<close> the
  result is a well-formed query rooted at the document root. The code returns
  \<^verbatim>\<open>'][local-name()='A'][local-name()='B']\<close>: it opens with an apostrophe and a closing
  bracket and does not begin with \<^verbatim>\<open>/\<close>.
\<close>

theorem normalize_xpath_two_steps:
  "normalize_xpath ''/A/B'' =
     [apos] @ ''][local-name()='' @ [apos] @ ''A'' @ [apos] @
     ''][local-name()='' @ [apos] @ ''B'' @ [apos] @ '']'' \<and>
   \<not> prefix ''/'' (normalize_xpath ''/A/B'')"
  by (simp add: normalize_xpath_def marker_def descendant_step_def child_step_def
        closing_def apos_def)

text \<open>
  C5 (the code departs from the claim). The claim: the result for the expression \<^verbatim>\<open>/\<close>
  has no step that matches an empty local name. The code returns
  \<^verbatim>\<open>'][local-name()='']\<close>, which contains \<^verbatim>\<open>local-name()=''\<close>.
\<close>

theorem normalize_xpath_lone_separator:
  "normalize_xpath ''/'' = [apos] @ ''][local-name()='' @ [apos, apos] @ '']'' \<and>
   py_in (''local-name()='' @ [apos, apos]) (normalize_xpath ''/'')"
  by (simp add: normalize_xpath_def marker_def descendant_step_def child_step_def
        closing_def apos_def)

text \<open>
  C7, as stated, fails: \<^verbatim>\<open>A\<close> is not empty and does not hold the marker, its
  normalization \<^verbatim>\<open>A']\<close> does not hold it either, and a second normalization appends the
  closing text once more.
\<close>

theorem normalize_xpath_not_idempotent:
  "''A'' \<noteq> [] \<and> \<not> py_in marker ''A'' \<and>
   normalize_xpath (normalize_xpath ''A'') \<noteq> normalize_xpath ''A''"
  by (simp add: normalize_xpath_def marker_def descendant_step_def child_step_def
        closing_def apos_def)

text \<open>
  C7, amended: an expression that already contains the marker is returned unchanged, and
  \<open>normalize_xpath\<close> is idempotent on every expression that contains at least one
  separator \<^verbatim>\<open>/\<close>.
\<close>

theorem normalize_xpath_idempotent:
  "(py_in marker x \<longrightarrow> normalize_xpath x = x) \<and>
   (py_in ''/'' x \<longrightarrow> normalize_xpath (normalize_xpath x) = normalize_xpath x)"
proof (intro conjI impI)
  show "normalize_xpath x = x" if "py_in marker x"
    using that by (simp add: normalize_xpath_def)
  show "normalize_xpath (normalize_xpath x) = normalize_xpath x" if "py_in ''/'' x"
  proof (cases "py_in marker x")
    case True
    then show ?thesis by (simp add: normalize_xpath_def)
  next
    case False
    from that have "CHR ''/'' \<in> set x" by (simp add: py_in_single)
    then have "py_in marker (normalize_xpath x)"
      using False marker_after_rewrite by (simp add: normalize_xpath_def)
    then show ?thesis by (simp add: normalize_xpath_def)
  qed
qed

text \<open>C7, amended, at \<^verbatim>\<open>/A/B\<close> and at the already normalized \<^verbatim>\<open>//*[local-name()='A']\<close>.\<close>

theorem normalize_xpath_idempotent_witness:
  "py_in ''/'' ''/A/B'' \<and>
   normalize_xpath (normalize_xpath ''/A/B'') = normalize_xpath ''/A/B'' \<and>
   py_in marker query_A \<and> normalize_xpath query_A = query_A"
  using normalize_xpath_idempotent [of "''/A/B''"] normalize_xpath_idempotent [of query_A]
  by (simp add: marker_def query_A_def apos_def)

section \<open>The condition evaluator\<close>

text \<open>
  C8: under the condition \<^verbatim>\<open>EXISTS\<close> two expected values give the same result, and that
  result is true exactly when the actual value is neither \<^verbatim>\<open>None\<close> nor the empty string.
\<close>

theorem exists_ignores_expected:
  "evaluate_condition rm actual e1 (JStr ''EXISTS'') =
     evaluate_condition rm actual e2 (JStr ''EXISTS'') \<and>
   evaluate_condition rm actual e1 (JStr ''EXISTS'') =
     Inr (actual \<noteq> None \<and> actual \<noteq> Some [])"
  by (simp add: evaluate_condition_def)

section \<open>The validation engine\<close>

lemmas example_simps =
  example_lib_def query_A_def query_Z_def apos_def dict_get_def apply_rule_def
  normalize_xpath_def marker_def descendant_step_def child_step_def closing_def
  evaluate_condition_def strip_def is_space_def cell_def columns_def Let_def

text \<open>The worked run: one parsed document, one file that is no document, one that fails.\<close>

lemma example_run:
  "main example_lib example_rules [(''.'', [''a.arxml'', ''notes.txt'', ''bad.arxml''])] =
     Inr example_rows"
  by (simp add: example_rules_def example_rows_def main_def process_file_def
        parse_error_row_def endswith_def lower_def lower_char_def suffix_to_prefix
        example_simps)

lemma example_file:
  "process_file example_lib example_rules ''.'' ''a.arxml'' = Inr (take 4 example_rows)"
  by (simp add: example_rules_def example_rows_def process_file_def example_simps)

subsection \<open>What the rows of one rule look like\<close>

lemma cell_full_row:
  "length row = 8 \<Longrightarrow>
     cell ''ARXML Path'' row = Some (row ! 0) \<and> cell ''ARXML File'' row = Some (row ! 1) \<and>
     cell ''Rule ID'' row = Some (row ! 2) \<and> cell ''Description'' row = Some (row ! 3) \<and>
     cell ''XPath'' row = Some (row ! 4) \<and> cell ''Expected'' row = Some (row ! 5) \<and>
     cell ''Actual'' row = Some (row ! 6) \<and> cell ''Status'' row = Some (row ! 7)"
  by (simp add: cell_def columns_def eval_nat_numeral)

lemma last_full_row: "length row = 8 \<Longrightarrow> last row = row ! 7"
proof -
  assume len: "length row = 8"
  then have "row \<noteq> []" by auto
  then have "last row = row ! (length row - 1)" by (rule last_conv_nth)
  with len show ?thesis by simp
qed

lemma cell_parse_error_row:
  "cell ''Rule ID'' (parse_error_row rel file msg) = Some (JStr ''PARSE_ERROR'') \<and>
   cell ''Description'' (parse_error_row rel file msg) = Some (JStr []) \<and>
   cell ''Expected'' (parse_error_row rel file msg) = Some (JStr msg) \<and>
   cell ''Actual'' (parse_error_row rel file msg) = Some (JStr ''FAIL'') \<and>
   cell ''Status'' (parse_error_row rel file msg) = None"
  by (simp add: cell_def columns_def parse_error_row_def)

lemma eval_elems_rows:
  "eval_elems L rel file rid desc xp ex cond els = Inr rows \<Longrightarrow> row \<in> set rows \<Longrightarrow>
     length row = 8 \<and> row ! 0 = JStr rel \<and> row ! 1 = JStr file \<and> row ! 2 = rid \<and>
     row ! 3 = desc \<and> row ! 4 = JStr xp \<and> row ! 5 = ex \<and>
     (row ! 7 = JStr ''PASS'' \<or> row ! 7 = JStr ''FAIL'')"
proof (induction els arbitrary: rows)
  case Nil
  then show ?case by simp
next
  case (Cons e es)
  then show ?case
    by (auto simp: Let_def split: sum.splits if_splits)
qed

lemma evaluate_condition_empty: "evaluate_condition rm a ex (JStr []) = Inr False"
  by (simp add: evaluate_condition_def)

lemma eval_elems_empty_condition:
  "eval_elems L rel file rid desc xp ex (JStr []) els =
     Inr (map (\<lambda>e. [JStr rel, JStr file, rid, desc, JStr xp, ex,
                      JStr (strip (case elem_text e of None \<Rightarrow> [] | Some t \<Rightarrow> t)),
                      JStr ''FAIL'']) els)"
  by (induction els) (simp_all add: evaluate_condition_empty)

lemma apply_rule_rows:
  assumes "apply_rule L root rel file r = Inr rows" and "row \<in> set rows"
  shows "length row = 8 \<and> row ! 0 = JStr rel \<and> row ! 1 = JStr file \<and>
         row ! 2 = dict_get r ''rule_id'' (JStr ''UNKNOWN'') \<and>
         row ! 3 = dict_get r ''description'' (JStr []) \<and>
         (\<exists>raw. dict_get r ''xpath'' (JStr []) = JStr raw \<and> row ! 4 = JStr (normalize_xpath raw)) \<and>
         row ! 5 = dict_get r ''expected'' (JStr []) \<and>
         row ! 7 \<in> statuses"
proof (cases "dict_get r ''xpath'' (JStr [])")
  case (JStr raw)
  show ?thesis
  proof (cases "root_xpath L root (normalize_xpath raw)")
    case None
    with JStr assms show ?thesis
      by (auto simp: apply_rule_def statuses_def)
  next
    case (Some els)
    show ?thesis
    proof (cases "els = []")
      case True
      with JStr Some assms show ?thesis
        by (auto simp: apply_rule_def statuses_def)
    next
      case False
      with JStr Some assms
      have "eval_elems L rel file (dict_get r ''rule_id'' (JStr ''UNKNOWN''))
              (dict_get r ''description'' (JStr [])) (normalize_xpath raw)
              (dict_get r ''expected'' (JStr [])) (dict_get r ''condition'' (JStr [])) els = Inr rows"
        by (simp add: apply_rule_def)
      from eval_elems_rows [OF this assms(2)] JStr show ?thesis
        by (auto simp: statuses_def)
    qed
  qed
qed (use assms in \<open>simp_all add: apply_rule_def\<close>)

lemma apply_rules_rows:
  "apply_rules L root rel file rs = Inr rows \<Longrightarrow> row \<in> set rows \<Longrightarrow>
     length row = 8 \<and> row ! 0 = JStr rel \<and> row ! 1 = JStr file \<and> row ! 7 \<in> statuses"
proof (induction rs arbitrary: rows)
  case Nil
  then show ?case by simp
next
  case (Cons r rs)
  from Cons.prems(1) obtain rows1 rows2
    where one: "apply_rule L root rel file r = Inr rows1"
      and rest: "apply_rules L root rel file rs = Inr rows2"
      and rows: "rows = rows1 @ rows2"
    by (auto split: sum.splits)
  from Cons.prems(2) rows consider "row \<in> set rows1" | "row \<in> set rows2" by auto
  then show ?case
  proof cases
    case 1
    from apply_rule_rows [OF one 1] show ?thesis by simp
  next
    case 2
    with rest show ?thesis by (rule Cons.IH)
  qed
qed

lemma process_file_rows:
  assumes "process_file L rules root_dir file = Inr rows" and "row \<in> set rows"
  shows "last row \<in> statuses"
proof (cases "etree_parse L (os_path_join L root_dir file)")
  case (Inl msg)
  with assms show ?thesis
    by (auto simp: process_file_def parse_error_row_def statuses_def)
next
  case (Inr root)
  with assms show ?thesis
    by (auto simp: process_file_def last_full_row dest: apply_rules_rows)
qed

lemma scan_files_rows:
  "scan_files L rules root_dir files = Inr rows \<Longrightarrow> row \<in> set rows \<Longrightarrow> last row \<in> statuses"
proof (induction files arbitrary: rows)
  case Nil
  then show ?case by simp
next
  case (Cons f fs)
  then show ?case
    by (auto split: sum.splits if_splits dest: process_file_rows)
qed

lemma walk_dirs_rows:
  "walk_dirs L rules walk = Inr rows \<Longrightarrow> row \<in> set rows \<Longrightarrow> last row \<in> statuses"
proof (induction walk arbitrary: rows)
  case Nil
  then show ?case by simp
next
  case (Cons d ds)
  obtain root_dir files where d: "d = (root_dir, files)" by (cases d)
  from Cons show ?case unfolding d
    by (auto split: sum.splits dest: scan_files_rows)
qed

lemma apply_rule_no_match:
  assumes "dict_get r ''xpath'' (JStr []) = JStr raw"
      and "root_xpath L root (normalize_xpath raw) = Some []"
  shows "apply_rule L root rel file r =
           Inr [[JStr rel, JStr file, dict_get r ''rule_id'' (JStr ''UNKNOWN''),
                 dict_get r ''description'' (JStr []), JStr (normalize_xpath raw),
                 dict_get r ''expected'' (JStr []), JStr [],
                 JStr (if truthy (dict_get r ''mandatory'' (JBool True))
                       then ''FAIL'' else ''SKIP'')]]"
  using assms by (simp add: apply_rule_def)

lemma apply_rule_rejected:
  assumes "dict_get r ''xpath'' (JStr []) = JStr raw"
      and "root_xpath L root (normalize_xpath raw) = None"
  shows "apply_rule L root rel file r =
           Inr [[JStr rel, JStr file, dict_get r ''rule_id'' (JStr ''UNKNOWN''),
                 dict_get r ''description'' (JStr []), JStr (normalize_xpath raw),
                 dict_get r ''expected'' (JStr []), JStr [], JStr ''INVALID_XPATH'']]"
  using assms by (simp add: apply_rule_def)

lemma process_file_parse_failure:
  assumes "etree_parse L (os_path_join L root_dir file) = Inl msg"
  shows "process_file L rules root_dir file =
           Inr [parse_error_row (os_path_relpath L (os_path_join L root_dir file)) file msg]"
  using assms by (simp add: process_file_def)

subsection \<open>Faults\<close>

text \<open>
  C2 (the code departs from the claim). The claim: a fault during the evaluation of a
  condition becomes a row and the run completes. In the code the call of
  \<open>evaluate_condition\<close> stands outside every \<^verbatim>\<open>try\<close>: with one rule whose pattern is
  malformed and one document in which the rule's query finds an element, the exception
  of the pattern ends the run and no row is reported.
\<close>

theorem malformed_pattern_ends_run:
  "main example_lib
     [Map.empty(''xpath'' \<mapsto> JStr query_A, ''condition'' \<mapsto> JStr ''REGEX'',
                ''expected'' \<mapsto> JStr ''('')]
     [(''.'', [''a.arxml''])] = Inl ReError"
  by (simp add: main_def process_file_def example_lib_def apply_rule_def dict_get_def
        evaluate_condition_def endswith_def lower_def lower_char_def suffix_to_prefix
        normalize_xpath_def marker_def query_A_def query_Z_def apos_def strip_def
        is_space_def)

text \<open>
  C3, as stated, fails: the row written for a document that does not parse ends with
  \<^verbatim>\<open>FAIL\<close>; \<^verbatim>\<open>PARSE_ERROR\<close> is its rule id, not its status, and the message is under
  neither the description nor the actual column.
\<close>

theorem parse_failure_row_not_as_claimed:
  "process_file example_lib [Map.empty] ''.'' ''bad.arxml'' =
     Inr [parse_error_row ''bad.arxml'' ''bad.arxml'' ''boom''] \<and>
   cell ''Status'' (parse_error_row ''bad.arxml'' ''bad.arxml'' ''boom'') \<noteq> Some (JStr ''PARSE_ERROR'') \<and>
   last (parse_error_row ''bad.arxml'' ''bad.arxml'' ''boom'') \<noteq> JStr ''PARSE_ERROR'' \<and>
   cell ''Description'' (parse_error_row ''bad.arxml'' ''bad.arxml'' ''boom'') \<noteq> Some (JStr ''boom'') \<and>
   cell ''Actual'' (parse_error_row ''bad.arxml'' ''bad.arxml'' ''boom'') \<noteq> Some (JStr ''boom'')"
  by (simp add: process_file_def example_lib_def cell_def columns_def parse_error_row_def)

text \<open>
  C3, amended: a document whose parse fails gets exactly one row, whatever the rules
  are; the row has the rule id \<^verbatim>\<open>PARSE_ERROR\<close>, carries the captured message and ends
  with \<^verbatim>\<open>FAIL\<close>; no rule is run against the document (the result is that of an empty
  rule list), and the scan goes on with the remaining files.
\<close>

theorem parse_failure_single_row:
  assumes "etree_parse L (os_path_join L root_dir file) = Inl msg"
  shows "\<exists>row. process_file L rules root_dir file = Inr [row] \<and>
               cell ''Rule ID'' row = Some (JStr ''PARSE_ERROR'') \<and>
               JStr msg \<in> set row \<and> last row = JStr ''FAIL'' \<and>
               process_file L [] root_dir file = Inr [row] \<and>
               (endswith (lower file) ''.arxml'' \<longrightarrow>
                  scan_files L rules root_dir (file # files) =
                    (case scan_files L rules root_dir files of
                       Inl err \<Rightarrow> Inl err
                     | Inr rows \<Rightarrow> Inr (row # rows)))"
  using process_file_parse_failure [OF assms, of rules]
        process_file_parse_failure [OF assms, of "[]"]
        cell_parse_error_row [of "os_path_relpath L (os_path_join L root_dir file)" "file" msg]
  by (simp add: parse_error_row_def split: sum.splits)

text \<open>C3, amended, at the document \<^verbatim>\<open>bad.arxml\<close> followed by a document that parses.\<close>

theorem parse_failure_single_row_witness:
  "\<exists>row. process_file example_lib
            [Map.empty(''xpath'' \<mapsto> JStr query_A), Map.empty(''xpath'' \<mapsto> JStr query_Z)]
            ''.'' ''bad.arxml'' = Inr [row] \<and>
         cell ''Rule ID'' row = Some (JStr ''PARSE_ERROR'') \<and>
         JStr ''boom'' \<in> set row \<and> last row = JStr ''FAIL'' \<and>
         endswith (lower ''bad.arxml'') ''.arxml'' \<and>
         scan_files example_lib
            [Map.empty(''xpath'' \<mapsto> JStr query_A), Map.empty(''xpath'' \<mapsto> JStr query_Z)]
            ''.'' [''bad.arxml'', ''b.arxml''] =
           Inr [row,
                [JStr ''b.arxml'', JStr ''b.arxml'', JStr ''UNKNOWN'', JStr [], JStr query_A,
                 JStr [], JStr ''1.0.0'', JStr ''FAIL''],
                [JStr ''b.arxml'', JStr ''b.arxml'', JStr ''UNKNOWN'', JStr [], JStr query_A,
                 JStr [], JStr [], JStr ''FAIL''],
                [JStr ''b.arxml'', JStr ''b.arxml'', JStr ''UNKNOWN'', JStr [], JStr query_Z,
                 JStr [], JStr [], JStr ''FAIL'']]"
  using parse_failure_single_row [of example_lib "''.''" "''bad.arxml''" "''boom''"
          "[Map.empty(''xpath'' \<mapsto> JStr query_A), Map.empty(''xpath'' \<mapsto> JStr query_Z)]"
          "[''b.arxml'']"]
  by (simp add: example_simps process_file_def parse_error_row_def endswith_def lower_def
        lower_char_def suffix_to_prefix)

subsection \<open>Statuses\<close>

text \<open>
  C4, as stated, fails: the row written when the tree engine rejects a query has the
  status \<^verbatim>\<open>INVALID_XPATH\<close>, which is none of the five claimed literals.
\<close>

theorem rejected_query_status_not_as_claimed:
  "apply_rule example_lib () ''a.arxml'' ''a.arxml'' (Map.empty(''xpath'' \<mapsto> JStr ''/A'')) =
     Inr [[JStr ''a.arxml'', JStr ''a.arxml'', JStr ''UNKNOWN'', JStr [],
           JStr (normalize_xpath ''/A''), JStr [], JStr [], JStr ''INVALID_XPATH'']] \<and>
   cell ''Status'' [JStr ''a.arxml'', JStr ''a.arxml'', JStr ''UNKNOWN'', JStr [],
           JStr (normalize_xpath ''/A''), JStr [], JStr [], JStr ''INVALID_XPATH''] =
     Some (JStr ''INVALID_XPATH'') \<and>
   JStr ''INVALID_XPATH'' \<notin>
     {JStr ''PASS'', JStr ''FAIL'', JStr ''SKIP'', JStr ''PARSE_ERROR'', JStr ''INVALID_QUERY''}"
  by (simp add: example_simps)

text \<open>
  C4, amended: every row of a completed run ends with one of \<^verbatim>\<open>PASS\<close>, \<^verbatim>\<open>FAIL\<close>,
  \<^verbatim>\<open>SKIP\<close>, \<^verbatim>\<open>INVALID_XPATH\<close>; in the rows a rule adds for a parsed document that
  entry is the status field; and the row written when the tree engine rejects the
  normalized query has the status \<^verbatim>\<open>INVALID_XPATH\<close> and an empty actual value.
\<close>

theorem row_statuses:
  "(main L rules walk = Inr rows \<longrightarrow> (\<forall>row \<in> set rows. last row \<in> statuses)) \<and>
   (apply_rule L root rel file r = Inr rows' \<longrightarrow>
      (\<forall>row \<in> set rows'. \<exists>s \<in> statuses. cell ''Status'' row = Some s)) \<and>
   (dict_get r ''xpath'' (JStr []) = JStr raw \<and> root_xpath L root (normalize_xpath raw) = None \<longrightarrow>
      (\<exists>row. apply_rule L root rel file r = Inr [row] \<and>
             cell ''Status'' row = Some (JStr ''INVALID_XPATH'') \<and>
             cell ''Actual'' row = Some (JStr [])))"
proof (intro conjI impI ballI)
  fix row
  assume "main L rules walk = Inr rows" and "row \<in> set rows"
  then show "last row \<in> statuses"
    using walk_dirs_rows [of L rules walk rows row]
    by (simp add: main_def split: if_splits)
next
  fix row
  assume "apply_rule L root rel file r = Inr rows'" and "row \<in> set rows'"
  from apply_rule_rows [OF this] cell_full_row [of row]
  show "\<exists>s \<in> statuses. cell ''Status'' row = Some s" by simp
next
  assume "dict_get r ''xpath'' (JStr []) = JStr raw \<and> root_xpath L root (normalize_xpath raw) = None"
  then have "dict_get r ''xpath'' (JStr []) = JStr raw"
    and "root_xpath L root (normalize_xpath raw) = None" by simp_all
  from apply_rule_rejected [OF this, of rel "file"]
  show "\<exists>row. apply_rule L root rel file r = Inr [row] \<and>
             cell ''Status'' row = Some (JStr ''INVALID_XPATH'') \<and>
             cell ''Actual'' row = Some (JStr [])"
    by (simp add: cell_def columns_def)
qed

text \<open>C4, amended, on the worked run and on its rule with the path \<^verbatim>\<open>/A/B\<close>.\<close>

theorem row_statuses_witness:
  "main example_lib example_rules [(''.'', [''a.arxml'', ''notes.txt'', ''bad.arxml''])] =
     Inr example_rows \<and>
   last (example_rows ! 0) \<in> statuses \<and> last (example_rows ! 1) \<in> statuses \<and>
   last (example_rows ! 2) \<in> statuses \<and> last (example_rows ! 3) \<in> statuses \<and>
   last (example_rows ! 4) \<in> statuses \<and>
   (\<exists>row. apply_rule example_lib () ''a.arxml'' ''a.arxml'' (example_rules ! 2) = Inr [row] \<and>
          cell ''Status'' row = Some (JStr ''INVALID_XPATH'') \<and>
          cell ''Actual'' row = Some (JStr []))"
proof -
  have run: "main example_lib example_rules [(''.'', [''a.arxml'', ''notes.txt'', ''bad.arxml''])] =
     Inr example_rows" by (rule example_run)
  have xp: "dict_get (example_rules ! 2) ''xpath'' (JStr []) = JStr ''/A/B''"
    by (simp add: example_rules_def dict_get_def)
  have rej: "root_xpath example_lib () (normalize_xpath ''/A/B'') = None"
    by (simp add: example_simps)
  note inst = row_statuses [of example_lib example_rules
      "[(''.'', [''a.arxml'', ''notes.txt'', ''bad.arxml''])]" example_rows
      "()" "''a.arxml''" "''a.arxml''" "example_rules ! 2" "[]" "''/A/B''"]
  from inst run have all: "\<forall>row \<in> set example_rows. last row \<in> statuses" by blast
  have mem: "example_rows ! 0 \<in> set example_rows" "example_rows ! 1 \<in> set example_rows"
    "example_rows ! 2 \<in> set example_rows" "example_rows ! 3 \<in> set example_rows"
    "example_rows ! 4 \<in> set example_rows"
    by (simp_all add: example_rows_def)
  from inst xp rej
  have "\<exists>row. apply_rule example_lib () ''a.arxml'' ''a.arxml'' (example_rules ! 2) = Inr [row] \<and>
          cell ''Status'' row = Some (JStr ''INVALID_XPATH'') \<and>
          cell ''Actual'' row = Some (JStr [])" by blast
  with run all mem show ?thesis by blast
qed

subsection \<open>Rules that match nothing\<close>

text \<open>
  C6: when the path of a rule is a string (or absent) and its normalized query runs and
  returns no node, the rule adds exactly one row for the document; its status is
  \<^verbatim>\<open>FAIL\<close> if the rule is mandatory (the field is true in Python's sense, or absent) and
  \<^verbatim>\<open>SKIP\<close> otherwise.
\<close>

theorem no_match_single_row:
  assumes "dict_get r ''xpath'' (JStr []) = JStr raw"
      and "root_xpath L root (normalize_xpath raw) = Some []"
  shows "\<exists>row. apply_rule L root rel file r = Inr [row] \<and> length row = 8 \<and>
               cell ''Rule ID'' row = Some (dict_get r ''rule_id'' (JStr ''UNKNOWN'')) \<and>
               cell ''Actual'' row = Some (JStr []) \<and>
               cell ''Status'' row =
                 Some (JStr (if truthy (dict_get r ''mandatory'' (JBool True))
                             then ''FAIL'' else ''SKIP''))"
  using apply_rule_no_match [OF assms, of rel "file"]
  by (simp add: cell_def columns_def)

text \<open>C6 on a mandatory and on an optional rule whose query finds nothing.\<close>

theorem no_match_single_row_witness:
  "(\<exists>row. apply_rule example_lib () ''a.arxml'' ''a.arxml''
            (Map.empty(''xpath'' \<mapsto> JStr query_Z, ''mandatory'' \<mapsto> JBool True)) = Inr [row] \<and>
          cell ''Status'' row = Some (JStr ''FAIL'')) \<and>
   (\<exists>row. apply_rule example_lib () ''a.arxml'' ''a.arxml''
            (Map.empty(''xpath'' \<mapsto> JStr query_Z, ''mandatory'' \<mapsto> JBool False)) = Inr [row] \<and>
          cell ''Status'' row = Some (JStr ''SKIP''))"
  using no_match_single_row [of "Map.empty(''xpath'' \<mapsto> JStr query_Z, ''mandatory'' \<mapsto> JBool True)"
          query_Z example_lib "()" "''a.arxml''" "''a.arxml''"]
        no_match_single_row [of "Map.empty(''xpath'' \<mapsto> JStr query_Z, ''mandatory'' \<mapsto> JBool False)"
          query_Z example_lib "()" "''a.arxml''" "''a.arxml''"]
  by (simp add: example_simps)

subsection \<open>Rows and columns\<close>

text \<open>
  C9: the report has eight columns. Every row written for a document that parsed has
  eight entries, one under each column, the path and the file name first. The row of a
  document that failed to parse has seven: the message lies under \<^verbatim>\<open>Expected\<close>,
  \<^verbatim>\<open>FAIL\<close> under \<^verbatim>\<open>Actual\<close>, and nothing under \<^verbatim>\<open>Status\<close>.
\<close>

theorem row_widths:
  "length columns = 8 \<and>
   (etree_parse L (os_path_join L root_dir file) = Inr root \<and>
    process_file L rules root_dir file = Inr rows \<longrightarrow>
      (\<forall>row \<in> set rows. length row = length columns \<and>
         cell ''ARXML Path'' row = Some (JStr (os_path_relpath L (os_path_join L root_dir file))) \<and>
         cell ''ARXML File'' row = Some (JStr file))) \<and>
   (etree_parse L (os_path_join L root_dir file) = Inl msg \<longrightarrow>
      (\<exists>row. process_file L rules root_dir file = Inr [row] \<and> length row = 7 \<and>
             cell ''Expected'' row = Some (JStr msg) \<and>
             cell ''Actual'' row = Some (JStr ''FAIL'') \<and>
             cell ''Status'' row = None))"
proof -
  have width: "length columns = 8" by (simp add: columns_def)
  have parsed: "length row = length columns \<and>
         cell ''ARXML Path'' row = Some (JStr (os_path_relpath L (os_path_join L root_dir file))) \<and>
         cell ''ARXML File'' row = Some (JStr file)"
    if ok: "etree_parse L (os_path_join L root_dir file) = Inr root"
      and run: "process_file L rules root_dir file = Inr rows" and mem: "row \<in> set rows"
    for row
  proof -
    from ok run
    have "apply_rules L root (os_path_relpath L (os_path_join L root_dir file)) file rules = Inr rows"
      by (simp add: process_file_def Let_def)
    from apply_rules_rows [OF this mem] cell_full_row [of row]
    show ?thesis by (simp add: columns_def)
  qed
  have failed: "\<exists>row. process_file L rules root_dir file = Inr [row] \<and> length row = 7 \<and>
             cell ''Expected'' row = Some (JStr msg) \<and>
             cell ''Actual'' row = Some (JStr ''FAIL'') \<and>
             cell ''Status'' row = None"
    if bad: "etree_parse L (os_path_join L root_dir file) = Inl msg"
    using process_file_parse_failure [OF bad, of rules]
      cell_parse_error_row [of "os_path_relpath L (os_path_join L root_dir file)" "file" msg]
    by (simp add: parse_error_row_def)
  from width parsed failed show ?thesis by blast
qed

text \<open>C9 on the two documents of the worked run.\<close>

theorem row_widths_witness:
  "etree_parse example_lib (os_path_join example_lib ''.'' ''a.arxml'') = Inr () \<and>
   process_file example_lib example_rules ''.'' ''a.arxml'' = Inr (take 4 example_rows) \<and>
   length (example_rows ! 0) = length columns \<and> length (example_rows ! 1) = length columns \<and>
   length (example_rows ! 2) = length columns \<and> length (example_rows ! 3) = length columns \<and>
   etree_parse example_lib (os_path_join example_lib ''.'' ''bad.arxml'') = Inl ''boom'' \<and>
   (\<exists>row. process_file example_lib example_rules ''.'' ''bad.arxml'' = Inr [row] \<and>
          length row = 7 \<and> cell ''Expected'' row = Some (JStr ''boom'') \<and>
          cell ''Actual'' row = Some (JStr ''FAIL'') \<and> cell ''Status'' row = None)"
proof -
  have ok: "etree_parse example_lib (os_path_join example_lib ''.'' ''a.arxml'') = Inr ()"
    by (simp add: example_lib_def)
  have bad: "etree_parse example_lib (os_path_join example_lib ''.'' ''bad.arxml'') = Inl ''boom''"
    by (simp add: example_lib_def)
  note good = row_widths [of example_lib "''.''" "''a.arxml''" "()" example_rules
      "take 4 example_rows" "''boom''"]
  with ok example_file
  have all: "\<forall>row \<in> set (take 4 example_rows). length row = length columns" by blast
  have mem: "example_rows ! 0 \<in> set (take 4 example_rows)"
    "example_rows ! 1 \<in> set (take 4 example_rows)"
    "example_rows ! 2 \<in> set (take 4 example_rows)"
    "example_rows ! 3 \<in> set (take 4 example_rows)"
    by (simp_all add: example_rows_def)
  from row_widths [of example_lib "''.''" "''bad.arxml''" "()" example_rules "[]" "''boom''"] bad
  have "\<exists>row. process_file example_lib example_rules ''.'' ''bad.arxml'' = Inr [row] \<and>
          length row = 7 \<and> cell ''Expected'' row = Some (JStr ''boom'') \<and>
          cell ''Actual'' row = Some (JStr ''FAIL'') \<and> cell ''Status'' row = None"
    by blast
  with ok bad example_file all mem show ?thesis by blast
qed

subsection \<open>Absent fields\<close>

text \<open>
  C10: a field missing from a rule reads as its default. The rows of the rule show
  \<^verbatim>\<open>UNKNOWN\<close> for an absent rule id and the empty string for an absent description or
  expected value; an absent path is the empty string, normalized; an absent
  \<^verbatim>\<open>mandatory\<close> counts as true, so no match is a \<^verbatim>\<open>FAIL\<close>; an absent condition is
  the empty string, for which the evaluator returns false without raising, so every
  matched element gives a \<^verbatim>\<open>FAIL\<close> row.
\<close>

theorem absent_fields_take_defaults:
  "(apply_rule L root rel file r = Inr rows \<and> row \<in> set rows \<longrightarrow>
      (r ''rule_id'' = None \<longrightarrow> cell ''Rule ID'' row = Some (JStr ''UNKNOWN'')) \<and>
      (r ''description'' = None \<longrightarrow> cell ''Description'' row = Some (JStr [])) \<and>
      (r ''xpath'' = None \<longrightarrow> cell ''XPath'' row = Some (JStr (normalize_xpath []))) \<and>
      (r ''expected'' = None \<longrightarrow> cell ''Expected'' row = Some (JStr []))) \<and>
   (r ''mandatory'' = None \<and> dict_get r ''xpath'' (JStr []) = JStr raw \<and>
    root_xpath L root (normalize_xpath raw) = Some [] \<longrightarrow>
      (\<exists>row'. apply_rule L root rel file r = Inr [row'] \<and>
              cell ''Status'' row' = Some (JStr ''FAIL''))) \<and>
   (r ''condition'' = None \<longrightarrow>
      evaluate_condition rm actual expected (dict_get r ''condition'' (JStr [])) = Inr False) \<and>
   (r ''condition'' = None \<and> dict_get r ''xpath'' (JStr []) = JStr raw \<and>
    root_xpath L root (normalize_xpath raw) = Some els \<and> els \<noteq> [] \<longrightarrow>
      (\<exists>rows'. apply_rule L root rel file r = Inr rows' \<and> length rows' = length els \<and>
               (\<forall>row' \<in> set rows'. cell ''Status'' row' = Some (JStr ''FAIL''))))"
proof (intro conjI impI)
  assume a: "apply_rule L root rel file r = Inr rows \<and> row \<in> set rows"
  then have rows: "apply_rule L root rel file r = Inr rows" and mem: "row \<in> set rows"
    by simp_all
  note facts = apply_rule_rows [OF rows mem] cell_full_row [of row]
  show "cell ''Rule ID'' row = Some (JStr ''UNKNOWN'')" if "r ''rule_id'' = None"
    using facts that by (simp add: dict_get_def)
  show "cell ''Description'' row = Some (JStr [])" if "r ''description'' = None"
    using facts that by (simp add: dict_get_def)
  show "cell ''XPath'' row = Some (JStr (normalize_xpath []))" if "r ''xpath'' = None"
    using facts that by (auto simp: dict_get_def)
  show "cell ''Expected'' row = Some (JStr [])" if "r ''expected'' = None"
    using facts that by (simp add: dict_get_def)
next
  assume "r ''mandatory'' = None \<and> dict_get r ''xpath'' (JStr []) = JStr raw \<and>
    root_xpath L root (normalize_xpath raw) = Some []"
  then have m: "r ''mandatory'' = None" and x: "dict_get r ''xpath'' (JStr []) = JStr raw"
    and q: "root_xpath L root (normalize_xpath raw) = Some []" by simp_all
  from apply_rule_no_match [OF x q, of rel "file"] m
  show "\<exists>row'. apply_rule L root rel file r = Inr [row'] \<and>
              cell ''Status'' row' = Some (JStr ''FAIL'')"
    by (simp add: dict_get_def cell_def columns_def)
next
  assume "r ''condition'' = None"
  then show "evaluate_condition rm actual expected (dict_get r ''condition'' (JStr [])) = Inr False"
    by (simp add: dict_get_def evaluate_condition_empty)
next
  assume "r ''condition'' = None \<and> dict_get r ''xpath'' (JStr []) = JStr raw \<and>
    root_xpath L root (normalize_xpath raw) = Some els \<and> els \<noteq> []"
  then have c: "dict_get r ''condition'' (JStr []) = JStr []"
    and x: "dict_get r ''xpath'' (JStr []) = JStr raw"
    and q: "root_xpath L root (normalize_xpath raw) = Some els" and ne: "els \<noteq> []"
    by (simp_all add: dict_get_def)
  have "apply_rule L root rel file r =
          eval_elems L rel file (dict_get r ''rule_id'' (JStr ''UNKNOWN''))
            (dict_get r ''description'' (JStr [])) (normalize_xpath raw)
            (dict_get r ''expected'' (JStr [])) (JStr []) els"
    using c x q ne by (simp add: apply_rule_def)
  then show "\<exists>rows'. apply_rule L root rel file r = Inr rows' \<and> length rows' = length els \<and>
               (\<forall>row' \<in> set rows'. cell ''Status'' row' = Some (JStr ''FAIL''))"
    by (simp add: eval_elems_empty_condition cell_def columns_def)
qed

text \<open>C10 on the empty rule and on two rules that give only a path.\<close>

theorem absent_fields_take_defaults_witness:
  "(\<exists>row. apply_rule example_lib () ''a.arxml'' ''a.arxml'' Map.empty = Inr [row] \<and>
          cell ''Rule ID'' row = Some (JStr ''UNKNOWN'') \<and>
          cell ''Description'' row = Some (JStr []) \<and>
          cell ''XPath'' row = Some (JStr (normalize_xpath [])) \<and>
          cell ''Expected'' row = Some (JStr [])) \<and>
   (\<exists>row. apply_rule example_lib () ''a.arxml'' ''a.arxml''
            (Map.empty(''xpath'' \<mapsto> JStr query_Z)) = Inr [row] \<and>
          cell ''Status'' row = Some (JStr ''FAIL'')) \<and>
   (\<exists>row1 row2. apply_rule example_lib () ''a.arxml'' ''a.arxml''
            (Map.empty(''xpath'' \<mapsto> JStr query_A)) = Inr [row1, row2] \<and>
          cell ''Status'' row1 = Some (JStr ''FAIL'') \<and>
          cell ''Status'' row2 = Some (JStr ''FAIL''))"
  using absent_fields_take_defaults [of example_lib "()" "''a.arxml''" "''a.arxml''"
          "Map.empty(''xpath'' \<mapsto> JStr query_A)"
          "[[JStr ''a.arxml'', JStr ''a.arxml'', JStr ''UNKNOWN'', JStr [], JStr query_A,
             JStr [], JStr ''1.0.0'', JStr ''FAIL''],
            [JStr ''a.arxml'', JStr ''a.arxml'', JStr ''UNKNOWN'', JStr [], JStr query_A,
             JStr [], JStr [], JStr ''FAIL'']]"
          "[JStr ''a.arxml'', JStr ''a.arxml'', JStr ''UNKNOWN'', JStr [], JStr query_A,
             JStr [], JStr ''1.0.0'', JStr ''FAIL'']"
          query_A "re_match example_lib" "Some ''x''" "JStr []"
          "[Elem (Some '' 1.0.0 ''), Elem None]"]
  by (simp add: example_simps)

end
